theory Spec2Isabelle
  imports Main
begin

section \<open>The error handler of dynamic-error-handler (src/errorHandler.ts)\<close>

text \<open>
  The middleware factory of \<^verbatim>\<open>src/errorHandler.ts\<close> is embedded function by function.
  The TypeScript interfaces become records, optional fields become \<open>option\<close>s
  (\<open>None\<close> is JavaScript's \<^verbatim>\<open>undefined\<close>), fields of type \<^verbatim>\<open>any\<close> become values of
  the datatype \<open>jsval\<close>, a thrown exception becomes a value of type \<open>exn\<close>, and the
  objects the handler writes to (the caller's error object, the response, the log file)
  live in an explicit state.
\<close>

subsection \<open>JavaScript values\<close>

text \<open>
  The values an \<^verbatim>\<open>any\<close>-typed field can hold. A finite number is given by the text
  that \<^verbatim>\<open>String(n)\<close> prints for it (\<^verbatim>\<open>"42"\<close>, \<^verbatim>\<open>"0.5"\<close>, \<^verbatim>\<open>"1e+21"\<close>): the code
  only ever prints numbers held in such a field. The three numbers that are not finite
  and the BigInt values are constructors of their own. An object is the list of its own
  enumerable properties in enumeration order, with distinct keys. Functions, symbols,
  cyclic objects and objects with \<^verbatim>\<open>toString\<close> or \<^verbatim>\<open>toJSON\<close> members of their own are
  outside this datatype.
\<close>

datatype jsval =
    JUndefined
  | JNull
  | JBool bool
  | JNum string
  | JNaN
  | JInfinity
  | JNegInfinity
  | JBigInt int
  | JStr string
  | JArr "jsval list"
  | JObj "(string \<times> jsval) list"

text \<open>
  What a \<^verbatim>\<open>throw\<close> carries: a \<^verbatim>\<open>TypeError\<close> of the language, an error of the \<^verbatim>\<open>fs\<close>
  module, or whatever a caller-supplied classifier throws.
\<close>

datatype exn =
    TypeError string
  | FsError string
  | Thrown string

text \<open>The decimal digits of a BigInt, as \<^verbatim>\<open>String(n)\<close> prints them.\<close>

fun digits :: "nat \<Rightarrow> string" where
  "digits n = (if n < 10 then [char_of (48 + n)] else digits (n div 10) @ [char_of (48 + n mod 10)])"

definition bigint_to_string :: "int \<Rightarrow> string" where
  "bigint_to_string i = (if i < 0 then CHR ''-'' # digits (nat (- i)) else digits (nat i))"

text \<open>\<^verbatim>\<open>xs.join(sep)\<close> on strings.\<close>

fun join :: "string \<Rightarrow> string list \<Rightarrow> string" where
  "join sep [] = []"
| "join sep [x] = x"
| "join sep (x # y # ys) = x @ sep @ join sep (y # ys)"

text \<open>
  \<^verbatim>\<open>ToString\<close> as a template literal and \<^verbatim>\<open>Array.prototype.join\<close> apply it. Inside
  \<^verbatim>\<open>join\<close> an element that is \<^verbatim>\<open>undefined\<close> or \<^verbatim>\<open>null\<close> prints as the empty string
  (\<open>join_elem\<close>); an array prints as its elements joined with a comma.
\<close>

fun to_string :: "jsval \<Rightarrow> string"
  and join_elem :: "jsval \<Rightarrow> string" where
  "to_string JUndefined = ''undefined''"
| "to_string JNull = ''null''"
| "to_string (JBool b) = (if b then ''true'' else ''false'')"
| "to_string (JNum t) = t"
| "to_string JNaN = ''NaN''"
| "to_string JInfinity = ''Infinity''"
| "to_string JNegInfinity = ''-Infinity''"
| "to_string (JBigInt n) = bigint_to_string n"
| "to_string (JStr s) = s"
| "to_string (JArr xs) = join '','' (map join_elem xs)"
| "to_string (JObj kvs) = ''[object Object]''"
| "join_elem JUndefined = []"
| "join_elem JNull = []"
| "join_elem (JBool b) = to_string (JBool b)"
| "join_elem (JNum t) = to_string (JNum t)"
| "join_elem JNaN = to_string JNaN"
| "join_elem JInfinity = to_string JInfinity"
| "join_elem JNegInfinity = to_string JNegInfinity"
| "join_elem (JBigInt n) = to_string (JBigInt n)"
| "join_elem (JStr s) = to_string (JStr s)"
| "join_elem (JArr xs) = to_string (JArr xs)"
| "join_elem (JObj kvs) = to_string (JObj kvs)"

text \<open>
  \<^verbatim>\<open>Object.values(v)\<close>: throws on \<^verbatim>\<open>undefined\<close> and \<^verbatim>\<open>null\<close>; a string gives its
  characters, an array its elements, an object its property values, and every other
  primitive the empty list.
\<close>

fun Object_values :: "jsval \<Rightarrow> exn + jsval list" where
  "Object_values JUndefined = Inl (TypeError ''Cannot convert undefined or null to object'')"
| "Object_values JNull = Inl (TypeError ''Cannot convert undefined or null to object'')"
| "Object_values (JStr s) = Inr (map (\<lambda>c. JStr [c]) s)"
| "Object_values (JArr xs) = Inr xs"
| "Object_values (JObj kvs) = Inr (map snd kvs)"
| "Object_values v = Inr []"

text \<open>The property read \<^verbatim>\<open>el.message\<close>: throws on \<^verbatim>\<open>undefined\<close> and \<^verbatim>\<open>null\<close>.\<close>

fun get_message :: "jsval \<Rightarrow> exn + jsval" where
  "get_message JUndefined = Inl (TypeError ''Cannot read properties of undefined (reading message)'')"
| "get_message JNull = Inl (TypeError ''Cannot read properties of null (reading message)'')"
| "get_message (JObj kvs) = Inr (case map_of kvs ''message'' of None \<Rightarrow> JUndefined | Some v \<Rightarrow> v)"
| "get_message v = Inr JUndefined"

text \<open>\<^verbatim>\<open>xs.map(f)\<close> where \<open>f\<close> may throw: the first exception ends the loop.\<close>

fun map_throwing :: "('a \<Rightarrow> exn + 'b) \<Rightarrow> 'a list \<Rightarrow> exn + 'b list" where
  "map_throwing f [] = Inr []"
| "map_throwing f (x # xs) =
     (case f x of
        Inl e \<Rightarrow> Inl e
      | Inr y \<Rightarrow> (case map_throwing f xs of Inl e \<Rightarrow> Inl e | Inr ys \<Rightarrow> Inr (y # ys)))"

subsection \<open>\<^verbatim>\<open>JSON.stringify\<close>\<close>

definition hex_digit :: "nat \<Rightarrow> char" where
  "hex_digit n = (if n < 10 then char_of (48 + n) else char_of (87 + n))"

definition json_escape_char :: "char \<Rightarrow> string" where
  "json_escape_char c =
     (if c = CHR ''\"'' then [CHR 0x5C, CHR ''\"'']
      else if c = CHR 0x5C then [CHR 0x5C, CHR 0x5C]
      else if c = CHR 0x08 then [CHR 0x5C, CHR ''b'']
      else if c = CHR 0x0C then [CHR 0x5C, CHR ''f'']
      else if c = CHR 0x0A then [CHR 0x5C, CHR ''n'']
      else if c = CHR 0x0D then [CHR 0x5C, CHR ''r'']
      else if c = CHR 0x09 then [CHR 0x5C, CHR ''t'']
      else if of_char c < (32::nat)
        then [CHR 0x5C, CHR ''u'', CHR ''0'', CHR ''0'',
              hex_digit (of_char c div 16), hex_digit (of_char c mod 16)]
      else [c])"

definition json_quote :: "string \<Rightarrow> string" where
  "json_quote s = CHR ''\"'' # concat (map json_escape_char s) @ [CHR ''\"'']"

text \<open>
  \<^verbatim>\<open>JSON.stringify(v)\<close> returns \<^verbatim>\<open>undefined\<close> (\<open>None\<close>) for \<^verbatim>\<open>undefined\<close>; inside an
  array \<^verbatim>\<open>undefined\<close> prints as \<^verbatim>\<open>null\<close>, inside an object the property is left out.
  A finite number prints as \<^verbatim>\<open>String(n)\<close> does, a number that is not finite as
  \<^verbatim>\<open>null\<close>, and a BigInt anywhere in the value makes the call throw.
\<close>

fun JSON_stringify :: "jsval \<Rightarrow> exn + string option"
  and stringify_elems :: "jsval list \<Rightarrow> exn + string list"
  and stringify_props :: "(string \<times> jsval) list \<Rightarrow> exn + string list" where
  "JSON_stringify JUndefined = Inr None"
| "JSON_stringify JNull = Inr (Some ''null'')"
| "JSON_stringify (JBool b) = Inr (Some (if b then ''true'' else ''false''))"
| "JSON_stringify (JNum t) = Inr (Some t)"
| "JSON_stringify JNaN = Inr (Some ''null'')"
| "JSON_stringify JInfinity = Inr (Some ''null'')"
| "JSON_stringify JNegInfinity = Inr (Some ''null'')"
| "JSON_stringify (JBigInt n) = Inl (TypeError ''Do not know how to serialize a BigInt'')"
| "JSON_stringify (JStr s) = Inr (Some (json_quote s))"
| "JSON_stringify (JArr xs) =
     (case stringify_elems xs of
        Inl e \<Rightarrow> Inl e
      | Inr ss \<Rightarrow> Inr (Some (''['' @ join '','' ss @ '']'')))"
| "JSON_stringify (JObj kvs) =
     (case stringify_props kvs of
        Inl e \<Rightarrow> Inl e
      | Inr ss \<Rightarrow> Inr (Some (''{'' @ join '','' ss @ ''}'')))"
| "stringify_elems [] = Inr []"
| "stringify_elems (x # xs) =
     (case JSON_stringify x of
        Inl e \<Rightarrow> Inl e
      | Inr v \<Rightarrow>
          (case stringify_elems xs of
             Inl e \<Rightarrow> Inl e
           | Inr ss \<Rightarrow> Inr ((case v of None \<Rightarrow> ''null'' | Some t \<Rightarrow> t) # ss)))"
| "stringify_props [] = Inr []"
| "stringify_props (kv # kvs) =
     (case JSON_stringify (snd kv) of
        Inl e \<Rightarrow> Inl e
      | Inr v \<Rightarrow>
          (case stringify_props kvs of
             Inl e \<Rightarrow> Inl e
           | Inr ss \<Rightarrow>
               Inr (case v of None \<Rightarrow> ss | Some t \<Rightarrow> (json_quote (fst kv) @ '':'' @ t) # ss)))"

text \<open>A template literal \<^verbatim>\<open>${x}\<close> on an optional string: \<^verbatim>\<open>undefined\<close> prints as such.\<close>

definition template :: "string option \<Rightarrow> string" where
  "template x = (case x of None \<Rightarrow> ''undefined'' | Some s \<Rightarrow> s)"

subsection \<open>The data model\<close>

text \<open>
  \<^verbatim>\<open>interface ErrorType extends Error\<close> (lines 6 to 14), with the \<^verbatim>\<open>keyValue\<close> field that
  the duplicate-field classifier reads through \<^verbatim>\<open>any\<close>. The field \<^verbatim>\<open>value\<close> is written
  \<open>value'\<close> here, and the request's \<^verbatim>\<open>method\<close> is written \<open>method'\<close>.
\<close>

record ErrorType =
  name :: string
  message :: string
  stack :: "string option"
  statusCode :: "int option"
  status :: "string option"
  isOperational :: "bool option"
  code :: "int option"
  errors :: jsval
  path :: "string option"
  value' :: "string option"
  keyValue :: jsval

text \<open>
  \<^verbatim>\<open>type HandlerFunction = (err: any) => AppError\<close>. A classifier may throw. Its argument
  is an error object, or \<open>None\<close> when it is called without one (the one call of that kind
  is in \<open>inherited_call\<close> below).
\<close>

type_synonym HandlerFunction = "ErrorType option \<Rightarrow> exn + ErrorType"

type_synonym Handlers = "string \<rightharpoonup> HandlerFunction"

record ErrorHandlerOptions =
  enableLogging :: "bool option"
  customHandlers :: "Handlers option"

text \<open>
  Modelled from the spec: the status category of the class \<^verbatim>\<open>AppError\<close>
  (\<^verbatim>\<open>src/AppError.ts\<close> is imported by \<^verbatim>\<open>errorHandler.ts\<close> but is not among the sources):
  \<^verbatim>\<open>"fail"\<close> when the status code is in [400,500) and \<^verbatim>\<open>"error"\<close> otherwise.
\<close>

definition statusClass :: "int \<Rightarrow> string" where
  "statusClass c = (if 400 \<le> c \<and> c < 500 then ''fail'' else ''error'')"

text \<open>
  Modelled from the spec: the constructor of the class \<^verbatim>\<open>AppError\<close>, which is not among
  the sources. The spec's OperationalError has a message, a status code that defaults to
  400, the status category above and \<^verbatim>\<open>isOperational = true\<close>; neither argument is
  validated. The class extends \<^verbatim>\<open>Error\<close> and the spec gives it no name of its own, so
  \<^verbatim>\<open>name\<close> is the inherited \<^verbatim>\<open>"Error"\<close>; \<open>tr\<close> is the trace the runtime captures when
  the object is constructed.
\<close>

definition AppError :: "string \<Rightarrow> string \<Rightarrow> int option \<Rightarrow> ErrorType" where
  "AppError tr msg sc =
     (let c = (case sc of None \<Rightarrow> 400 | Some c \<Rightarrow> c) in
      \<lparr> name = ''Error'', message = msg, stack = Some tr,
        statusCode = Some c, status = Some (statusClass c), isOperational = Some True,
        code = None, errors = JUndefined, path = None, value' = None,
        keyValue = JUndefined \<rparr>)"

subsection \<open>The built-in classifiers (lines 27 to 46)\<close>

text \<open>A property read on the argument throws when there is no argument.\<close>

definition no_argument :: "string \<Rightarrow> exn" where
  "no_argument p =
     TypeError (''Cannot read properties of undefined (reading '' @ [CHR 0x27] @ p @ [CHR 0x27] @ '')'')"

definition CastError :: "string \<Rightarrow> HandlerFunction" where
  "CastError tr arg =
     (case arg of
        None \<Rightarrow> Inl (no_argument ''path'')
      | Some err \<Rightarrow>
          Inr (AppError tr
                 (''Invalid '' @ template (path err) @ '': '' @ template (value' err) @ ''.'')
                 (Some 400)))"

definition ValidationError :: "string \<Rightarrow> HandlerFunction" where
  "ValidationError tr arg =
     (case arg of
        None \<Rightarrow> Inl (no_argument ''errors'')
      | Some err \<Rightarrow>
          (case Object_values (errors err) of
             Inl e \<Rightarrow> Inl e
           | Inr els \<Rightarrow>
               (case map_throwing get_message els of
                  Inl e \<Rightarrow> Inl e
                | Inr msgs \<Rightarrow>
                    Inr (AppError tr (''Invalid input data. '' @ join ''. '' (map join_elem msgs))
                           (Some 400)))))"

definition DuplicateField :: "string \<Rightarrow> HandlerFunction" where
  "DuplicateField tr arg =
     (case arg of
        None \<Rightarrow> Inl (no_argument ''keyValue'')
      | Some err \<Rightarrow>
          (case JSON_stringify (keyValue err) of
             Inl e \<Rightarrow> Inl e
           | Inr v \<Rightarrow> Inr (AppError tr (''Duplicate field value: '' @ template v) (Some 400))))"

definition JsonWebTokenError :: "string \<Rightarrow> HandlerFunction" where
  "JsonWebTokenError tr arg = Inr (AppError tr ''Invalid token. Please log in again.'' (Some 401))"

definition TokenExpiredError :: "string \<Rightarrow> HandlerFunction" where
  "TokenExpiredError tr arg = Inr (AppError tr ''Token expired. Please log in again.'' (Some 401))"

text \<open>
  A registry is the table of the own properties of a \<^verbatim>\<open>Handlers\<close> object, keyed by
  discriminator. The object is a plain one: what a property read finds beyond its own
  properties is in \<open>lookup_by_name\<close> below.
\<close>

definition defaultHandlers :: "string \<Rightarrow> Handlers" where
  "defaultHandlers tr =
     map_of [(''CastError'', CastError tr),
             (''ValidationError'', ValidationError tr),
             (''DuplicateField'', DuplicateField tr),
             (''JsonWebTokenError'', JsonWebTokenError tr),
             (''TokenExpiredError'', TokenExpiredError tr)]"

subsection \<open>The state the handler works on\<close>

text \<open>
  \<^verbatim>\<open>req\<close> carries the three fields the log record reads. The response object records
  every \<^verbatim>\<open>res.status(c).json(p)\<close> as a pair of the status argument and the payload object,
  in the order of the calls. The status argument is \<open>Some n\<close> when it is the number
  \<open>n\<close> and \<open>None\<close> when it is not a number; a payload field whose value is
  \<^verbatim>\<open>undefined\<close> or a function (\<^verbatim>\<open>res.json\<close> leaves both out) is recorded with the value
  \<open>JUndefined\<close>.
\<close>

record Request =
  originalUrl :: string
  method' :: string
  ip :: "string option"

type_synonym payload = "(string \<times> jsval) list"

type_synonym Response = "(int option \<times> payload) list"

text \<open>
  The world around one call: the environment variable, the clock, the file system as far
  as \<^verbatim>\<open>logError\<close> touches it (whether the directory \<^verbatim>\<open>logs\<close> exists, the files by
  path, and whether writes fail, as they do on a full or read-only volume), the heap of
  error objects by address, and the response object.
\<close>

record State =
  NODE_ENV :: "string option"
  now :: string
  cwd :: string
  logs_exists :: bool
  fs_unavailable :: bool
  files :: "string \<rightharpoonup> string"
  heap :: "nat \<Rightarrow> ErrorType"
  res :: Response

datatype outcome = Returned | Threw exn

subsection \<open>Logging (lines 48 to 60)\<close>

definition log_record :: "ErrorType \<Rightarrow> Request \<Rightarrow> State \<Rightarrow> string" where
  "log_record err req s =
     [CHR 0x0A] @ ''['' @ now s @ '']'' @ [CHR 0x0A] @
     ''URL: '' @ originalUrl req @ [CHR 0x0A] @
     ''Method: '' @ method' req @ [CHR 0x0A] @
     ''IP: '' @ template (ip req) @ [CHR 0x0A] @
     ''Message: '' @ message err @ [CHR 0x0A] @
     ''Stack: '' @ template (stack err) @ [CHR 0x0A]"

definition path_resolve :: "State \<Rightarrow> string \<Rightarrow> string \<Rightarrow> string" where
  "path_resolve s d f = cwd s @ ''/'' @ d @ ''/'' @ f"

definition existsSync_logs :: "State \<Rightarrow> bool" where
  "existsSync_logs s = logs_exists s"

definition mkdirSync_logs :: "State \<Rightarrow> exn + State" where
  "mkdirSync_logs s =
     (if fs_unavailable s then Inl (FsError ''mkdir logs'')
      else Inr (s\<lparr>logs_exists := True\<rparr>))"

definition appendFileSync :: "string \<Rightarrow> string \<Rightarrow> State \<Rightarrow> exn + State" where
  "appendFileSync p txt s =
     (if fs_unavailable s then Inl (FsError ''open'')
      else Inr (s\<lparr>files := (files s)(p \<mapsto> (case files s p of None \<Rightarrow> [] | Some old \<Rightarrow> old) @ txt)\<rparr>))"

definition logError :: "ErrorType \<Rightarrow> Request \<Rightarrow> State \<Rightarrow> exn + State" where
  "logError err req s =
     (let log = log_record err req s;
          logPath = path_resolve s ''logs'' ''error.log''
      in case (if \<not> existsSync_logs s then mkdirSync_logs s else Inr s) of
           Inl e \<Rightarrow> Inl e
         | Inr s1 \<Rightarrow> appendFileSync logPath log s1)"

subsection \<open>The two formatters (lines 62 to 82)\<close>

definition opt_str :: "string option \<Rightarrow> jsval" where
  "opt_str x = (case x of None \<Rightarrow> JUndefined | Some s \<Rightarrow> JStr s)"

text \<open>\<^verbatim>\<open>err.statusCode || 500\<close>: \<^verbatim>\<open>undefined\<close> and 0 are falsy.\<close>

definition statusCode_or :: "int option \<Rightarrow> int \<Rightarrow> int" where
  "statusCode_or x d = (case x of None \<Rightarrow> d | Some c \<Rightarrow> if c = 0 then d else c)"

text \<open>\<^verbatim>\<open>err.status || "error"\<close>: \<^verbatim>\<open>undefined\<close> and the empty string are falsy.\<close>

definition status_or :: "string option \<Rightarrow> string \<Rightarrow> string" where
  "status_or x d = (case x of None \<Rightarrow> d | Some t \<Rightarrow> if t = [] then d else t)"

definition sendDevError :: "ErrorType \<Rightarrow> Response \<Rightarrow> Response" where
  "sendDevError err r =
     r @ [(Some (statusCode_or (statusCode err) 500),
           [(''status'', JStr (status_or (status err) ''error'')),
            (''message'', JStr (message err)),
            (''stack'', opt_str (stack err))])]"

definition sendProdError :: "ErrorType \<Rightarrow> Response \<Rightarrow> Response" where
  "sendProdError err r =
     (if isOperational err = Some True
      then r @ [(statusCode err,
                 [(''status'', opt_str (status err)),
                  (''message'', JStr (message err))])]
      else r @ [(Some 500,
                 [(''status'', JStr ''error''),
                  (''message'', JStr ''Something went very wrong!'')])])"

subsection \<open>The factory and the handler it returns (lines 85 to 110)\<close>

text \<open>Lines 97 and 98, the two writes to the error object.\<close>

definition normalize_error :: "ErrorType \<Rightarrow> ErrorType" where
  "normalize_error err =
     err\<lparr> statusCode := Some (statusCode_or (statusCode err) 500),
          status := Some (status_or (status err) ''error'') \<rparr>"

text \<open>
  \<^verbatim>\<open>handlers\<close> (line 90) is a plain object, so the read \<^verbatim>\<open>handlers[err.name]\<close> of lines
  101 and 102 finds, besides the registered classifiers, the members that every object
  inherits from \<^verbatim>\<open>Object.prototype\<close>. All of them are truthy, so line 102 calls them, as
  methods of \<^verbatim>\<open>handlers\<close> and with the error as the only argument.
\<close>

definition Object_prototype_names :: "string list" where
  "Object_prototype_names =
     [''constructor'', ''toString'', ''toLocaleString'', ''valueOf'', ''hasOwnProperty'',
      ''propertyIsEnumerable'', ''isPrototypeOf'', ''__lookupGetter__'', ''__lookupSetter__'',
      ''__defineGetter__'', ''__defineSetter__'', ''__proto__'']"

text \<open>
  What \<^verbatim>\<open>err\<close> can refer to after line 102: an error object, or what an inherited
  member returns: \<^verbatim>\<open>undefined\<close>, a boolean, a string, or the \<^verbatim>\<open>handlers\<close> object itself.
\<close>

datatype errval =
    EObj ErrorType
  | EUndefined
  | EBool bool
  | EStr string
  | ERegistry

definition has_key :: "Handlers \<Rightarrow> string \<Rightarrow> bool" where
  "has_key hs k = (case hs k of None \<Rightarrow> False | Some h \<Rightarrow> True)"

text \<open>
  \<^verbatim>\<open>Error.prototype.toString\<close>, by which an error object becomes a property key
  (the objects of \<open>ErrorType\<close> have no \<^verbatim>\<open>toString\<close> of their own).
\<close>

definition error_toString :: "ErrorType \<Rightarrow> string" where
  "error_toString err =
     (if name err = [] then message err
      else if message err = [] then name err
      else name err @ '': '' @ message err)"

text \<open>
  The call \<^verbatim>\<open>handlers[k](err)\<close> for an inherited member \<open>k\<close>:
  \<^item> \<^verbatim>\<open>constructor\<close> is \<^verbatim>\<open>Object\<close>, which returns the object it is given;
  \<^item> \<^verbatim>\<open>toString\<close> returns \<^verbatim>\<open>"[object Object]"\<close>, and \<^verbatim>\<open>toLocaleString\<close> calls
    \<^verbatim>\<open>handlers.toString()\<close>, which is a registered classifier if there is one of that
    name, called without an argument;
  \<^item> \<^verbatim>\<open>valueOf\<close> returns \<^verbatim>\<open>handlers\<close>;
  \<^item> \<^verbatim>\<open>hasOwnProperty\<close> and \<^verbatim>\<open>propertyIsEnumerable\<close> turn the error into a property key
    and tell whether \<^verbatim>\<open>handlers\<close> has an own (enumerable) property of that key;
  \<^item> \<^verbatim>\<open>isPrototypeOf\<close> returns \<^verbatim>\<open>false\<close>;
  \<^item> \<^verbatim>\<open>__lookupGetter__\<close> and \<^verbatim>\<open>__lookupSetter__\<close> return \<^verbatim>\<open>undefined\<close>, since no
    property of \<^verbatim>\<open>handlers\<close> is an accessor;
  \<^item> \<^verbatim>\<open>__defineGetter__\<close> and \<^verbatim>\<open>__defineSetter__\<close> throw, their second argument not
    being a function;
  \<^item> \<^verbatim>\<open>__proto__\<close> is \<^verbatim>\<open>Object.prototype\<close>, an object and not a function: the call throws.
\<close>

definition inherited_call :: "Handlers \<Rightarrow> string \<Rightarrow> ErrorType \<Rightarrow> exn + errval" where
  "inherited_call handlers k err =
     (if k = ''constructor'' then Inr (EObj err)
      else if k = ''toString'' then Inr (EStr ''[object Object]'')
      else if k = ''toLocaleString''
        then (case handlers ''toString'' of
                None \<Rightarrow> Inr (EStr ''[object Object]'')
              | Some h \<Rightarrow> (case h None of Inl e \<Rightarrow> Inl e | Inr err' \<Rightarrow> Inr (EObj err')))
      else if k = ''valueOf'' then Inr ERegistry
      else if k = ''hasOwnProperty'' \<or> k = ''propertyIsEnumerable''
        then Inr (EBool (has_key handlers (error_toString err)))
      else if k = ''isPrototypeOf'' then Inr (EBool False)
      else if k = ''__lookupGetter__'' \<or> k = ''__lookupSetter__'' then Inr EUndefined
      else if k = ''__defineGetter__'' \<or> k = ''__defineSetter__''
        then Inl (TypeError (''Object.prototype.'' @ k @ '': Expecting function''))
      else Inl (TypeError ''handlers[err.name] is not a function''))"

text \<open>Lines 101 to 103: an own property wins over an inherited one.\<close>

definition lookup_by_name :: "Handlers \<Rightarrow> ErrorType \<Rightarrow> exn + errval" where
  "lookup_by_name handlers err =
     (case handlers (name err) of
        Some h \<Rightarrow> (case h (Some err) of Inl e \<Rightarrow> Inl e | Inr err' \<Rightarrow> Inr (EObj err'))
      | None \<Rightarrow>
          if name err \<in> set Object_prototype_names
          then inherited_call handlers (name err) err
          else Inr (EObj err))"

text \<open>
  Lines 100 to 103, two consecutive \<^verbatim>\<open>if\<close> statements: the second one looks up the
  name of whatever \<^verbatim>\<open>err\<close> refers to after the first.
\<close>

definition classify :: "Handlers \<Rightarrow> ErrorType \<Rightarrow> exn + errval" where
  "classify handlers err =
     (case (if code err = Some 11000
            then (case handlers ''DuplicateField'' of
                    None \<Rightarrow> Inl (TypeError ''handlers.DuplicateField is not a function'')
                  | Some h \<Rightarrow> h (Some err))
            else Inr err) of
        Inl e \<Rightarrow> Inl e
      | Inr err1 \<Rightarrow> lookup_by_name handlers err1)"

text \<open>Lines 105 to 109, on an error object.\<close>

definition respond :: "ErrorType \<Rightarrow> State \<Rightarrow> State" where
  "respond err s =
     (if NODE_ENV s = Some ''development''
      then s\<lparr>res := sendDevError err (res s)\<rparr>
      else s\<lparr>res := sendProdError err (res s)\<rparr>)"

text \<open>
  The formatters are typed for an error object, and on one they are \<open>sendDevError\<close>
  and \<open>sendProdError\<close> above. What they do on the other values line 102 can leave in
  \<^verbatim>\<open>err\<close>: every property read throws on \<^verbatim>\<open>undefined\<close>; a boolean and a string have none
  of the properties read, so each read gives \<^verbatim>\<open>undefined\<close>; the \<^verbatim>\<open>handlers\<close> object has
  one of them exactly when a classifier is registered under that name, and the value
  read is then that function, which is truthy.
\<close>

definition sendDevError_value :: "Handlers \<Rightarrow> errval \<Rightarrow> Response \<Rightarrow> exn + Response" where
  "sendDevError_value handlers v r =
     (case v of
        EObj err \<Rightarrow> Inr (sendDevError err r)
      | EUndefined \<Rightarrow> Inl (no_argument ''statusCode'')
      | EBool b \<Rightarrow>
          Inr (r @ [(Some 500, [(''status'', JStr ''error''), (''message'', JUndefined),
                                (''stack'', JUndefined)])])
      | EStr t \<Rightarrow>
          Inr (r @ [(Some 500, [(''status'', JStr ''error''), (''message'', JUndefined),
                                (''stack'', JUndefined)])])
      | ERegistry \<Rightarrow>
          Inr (r @ [(if has_key handlers ''statusCode'' then None else Some 500,
                     [(''status'', if has_key handlers ''status'' then JUndefined else JStr ''error''),
                      (''message'', JUndefined),
                      (''stack'', JUndefined)])]))"

definition sendProdError_value :: "Handlers \<Rightarrow> errval \<Rightarrow> Response \<Rightarrow> exn + Response" where
  "sendProdError_value handlers v r =
     (case v of
        EObj err \<Rightarrow> Inr (sendProdError err r)
      | EUndefined \<Rightarrow> Inl (no_argument ''isOperational'')
      | EBool b \<Rightarrow>
          Inr (r @ [(Some 500, [(''status'', JStr ''error''),
                                (''message'', JStr ''Something went very wrong!'')])])
      | EStr t \<Rightarrow>
          Inr (r @ [(Some 500, [(''status'', JStr ''error''),
                                (''message'', JStr ''Something went very wrong!'')])])
      | ERegistry \<Rightarrow>
          (if has_key handlers ''isOperational''
           then Inr (r @ [(None, [(''status'', JUndefined), (''message'', JUndefined)])])
           else Inr (r @ [(Some 500, [(''status'', JStr ''error''),
                                      (''message'', JStr ''Something went very wrong!'')])])))"

text \<open>Lines 105 to 109 on whatever \<^verbatim>\<open>err\<close> refers to.\<close>

definition respond_value :: "Handlers \<Rightarrow> errval \<Rightarrow> State \<Rightarrow> exn + State" where
  "respond_value handlers v s =
     (if NODE_ENV s = Some ''development''
      then (case sendDevError_value handlers v (res s) of
              Inl e \<Rightarrow> Inl e | Inr r \<Rightarrow> Inr (s\<lparr>res := r\<rparr>))
      else (case sendProdError_value handlers v (res s) of
              Inl e \<Rightarrow> Inl e | Inr r \<Rightarrow> Inr (s\<lparr>res := r\<rparr>)))"

text \<open>
  The factory. \<open>tr\<close> is the trace the runtime gives to an \<^verbatim>\<open>AppError\<close> built by a
  built-in classifier. The returned handler takes the address of the caller's error
  object: lines 97 and 98 write to that object, lines 100 and 102 only rebind the local
  variable \<^verbatim>\<open>err\<close> to the object a classifier returns. An exception leaves the state as
  it is at the throwing statement. The \<^verbatim>\<open>next\<close> argument is never used.
\<close>

definition merge_handlers :: "string \<Rightarrow> ErrorHandlerOptions \<Rightarrow> Handlers" where
  "merge_handlers tr opts =
     defaultHandlers tr ++ (case customHandlers opts of None \<Rightarrow> Map.empty | Some c \<Rightarrow> c)"

definition createErrorHandler ::
  "string \<Rightarrow> ErrorHandlerOptions \<Rightarrow> nat \<Rightarrow> Request \<Rightarrow> State \<Rightarrow> outcome \<times> State" where
  "createErrorHandler tr opts =
     (let enableLogging = (case enableLogging opts of None \<Rightarrow> True | Some b \<Rightarrow> b);
          handlers = merge_handlers tr opts
      in (\<lambda>err req s.
            case (if enableLogging then logError (heap s err) req s else Inr s) of
              Inl e \<Rightarrow> (Threw e, s)
            | Inr s1 \<Rightarrow>
                (let s2 = s1\<lparr>heap := (heap s1)(err := normalize_error (heap s1 err))\<rparr>
                 in case classify handlers (heap s2 err) of
                      Inl e \<Rightarrow> (Threw e, s2)
                    | Inr err' \<Rightarrow>
                        (case respond_value handlers err' s2 of
                           Inl e \<Rightarrow> (Threw e, s2)
                         | Inr s3 \<Rightarrow> (Returned, s3)))))"

subsection \<open>Concrete errors, options and worlds\<close>

text \<open>
  The inputs on which the properties below are evaluated. The custom classifiers return
  error objects written out field by field.
\<close>

definition plain_error :: ErrorType where
  "plain_error =
     \<lparr> name = ''Error'', message = ''boom'', stack = Some ''Error: boom at app.js'',
       statusCode = None, status = None, isOperational = None,
       code = None, errors = JUndefined, path = None, value' = None,
       keyValue = JUndefined \<rparr>"

definition duplicate_error :: ErrorType where
  "duplicate_error =
     plain_error\<lparr> name := ''MongoServerError'', code := Some 11000,
                  keyValue := JObj [(''email'', JStr ''a@b.c'')] \<rparr>"

definition cast_error :: ErrorType where
  "cast_error = plain_error\<lparr> name := ''CastError'', path := Some ''id'', value' := Some ''xyz'' \<rparr>"

definition validation_error :: ErrorType where
  "validation_error =
     plain_error\<lparr> name := ''ValidationError'',
                  errors := JObj [(''a'', JObj [(''message'', JStr ''A required'')]),
                                  (''b'', JObj [(''message'', JStr ''B invalid'')])] \<rparr>"

definition validation_error_bare :: ErrorType where
  "validation_error_bare = plain_error\<lparr> name := ''ValidationError'' \<rparr>"

definition proto_error :: ErrorType where
  "proto_error = plain_error\<lparr> name := ''__proto__'' \<rparr>"

definition toString_error :: ErrorType where
  "toString_error =
     plain_error\<lparr> name := ''toString'', statusCode := Some 404, status := Some ''fail'',
                  isOperational := Some True \<rparr>"

definition conflict :: ErrorType where
  "conflict =
     \<lparr> name = ''Conflict'', message = ''Already there'', stack = Some ''Conflict: Already there at db.js'',
       statusCode = Some 409, status = Some ''fail'', isOperational = Some True,
       code = None, errors = JUndefined, path = None, value' = None,
       keyValue = JUndefined \<rparr>"

definition teapot :: ErrorType where
  "teapot =
     \<lparr> name = ''Teapot'', message = ''I am a teapot'', stack = Some ''Teapot: I am a teapot at kitchen.js'',
       statusCode = Some 418, status = Some ''fail'', isOperational = Some True,
       code = None, errors = JUndefined, path = None, value' = None,
       keyValue = JUndefined \<rparr>"

definition to_conflict :: HandlerFunction where
  "to_conflict arg = Inr conflict"

definition to_teapot :: HandlerFunction where
  "to_teapot arg = Inr teapot"

definition chain_options :: ErrorHandlerOptions where
  "chain_options =
     \<lparr> enableLogging = Some False,
       customHandlers = Some [''DuplicateField'' \<mapsto> to_conflict, ''Conflict'' \<mapsto> to_teapot] \<rparr>"




definition request0 :: Request where
  "request0 = \<lparr> originalUrl = ''/users'', method' = ''POST'', ip = Some ''127.0.0.1'' \<rparr>"

definition world0 :: State where
  "world0 =
     \<lparr> NODE_ENV = Some ''production'', now = ''2024-01-01T00:00:00.000Z'', cwd = ''/app'',
       logs_exists = False, fs_unavailable = False, files = Map.empty,
       heap = (\<lambda>a. plain_error), res = [] \<rparr>"

definition default_options :: ErrorHandlerOptions where
  "default_options = \<lparr> enableLogging = None, customHandlers = None \<rparr>"

definition quiet_options :: ErrorHandlerOptions where
  "quiet_options = \<lparr> enableLogging = Some False, customHandlers = None \<rparr>"

definition unknown_error :: ErrorType where
  "unknown_error = plain_error\<lparr> name := ''RangeError'', statusCode := Some 404 \<rparr>"


section \<open>Properties\<close>

subsection \<open>Auxiliary facts\<close>

lemma DuplicateField_result:
  "JSON_stringify (keyValue err) = Inr v \<Longrightarrow>
   DuplicateField tr (Some err) =
     Inr (AppError tr (''Duplicate field value: '' @ template v) (Some 400))"
  by (simp add: DuplicateField_def)

lemma AppError_name: "name (AppError tr msg sc) = ''Error''"
  by (simp add: AppError_def Let_def)

lemma defaultHandlers_simps:
  "defaultHandlers tr ''DuplicateField'' = Some (DuplicateField tr)"
  "defaultHandlers tr ''CastError'' = Some (CastError tr)"
  "defaultHandlers tr ''ValidationError'' = Some (ValidationError tr)"
  "defaultHandlers tr ''Error'' = None"
  "defaultHandlers tr ''MongoServerError'' = None"
  "defaultHandlers tr ''RangeError'' = None"
  "defaultHandlers tr ''toString'' = None"
  "defaultHandlers tr ''__proto__'' = None"
  by (simp_all add: defaultHandlers_def)

lemma not_inherited:
  "''Error'' \<notin> set Object_prototype_names"
  "''RangeError'' \<notin> set Object_prototype_names"
  "''MongoServerError'' \<notin> set Object_prototype_names"
  "''Conflict'' \<notin> set Object_prototype_names"
  "''Teapot'' \<notin> set Object_prototype_names"
  "''Unprocessable'' \<notin> set Object_prototype_names"
  by (simp_all add: Object_prototype_names_def)

lemma merge_default: "customHandlers opts = None \<Longrightarrow> merge_handlers tr opts = defaultHandlers tr"
  by (simp add: merge_handlers_def)



lemma chain_registry:
  "merge_handlers tr chain_options ''DuplicateField'' = Some to_conflict"
  "merge_handlers tr chain_options ''Conflict'' = Some to_teapot"
  by (simp_all add: merge_handlers_def chain_options_def)

lemma plain_error_sel:
  "name plain_error = ''Error''" "code plain_error = None" "statusCode plain_error = None"
  "status plain_error = None" "isOperational plain_error = None" "errors plain_error = JUndefined"
  "message plain_error = ''boom''" "stack plain_error = Some ''Error: boom at app.js''"
  by (simp_all add: plain_error_def)

lemma world0_sel:
  "NODE_ENV world0 = Some ''production''" "fs_unavailable world0 = False"
  "heap world0 = (\<lambda>a. plain_error)" "res world0 = []"
  by (simp_all add: world0_def)

lemma normalize_error_sel:
  "name (normalize_error e) = name e" "code (normalize_error e) = code e"
  "errors (normalize_error e) = errors e" "keyValue (normalize_error e) = keyValue e"
  "message (normalize_error e) = message e"
  by (simp_all add: normalize_error_def)

text \<open>The two steps of classification.\<close>

lemma classify_by_code:
  "code err = Some 11000 \<Longrightarrow> handlers ''DuplicateField'' = Some h \<Longrightarrow>
   classify handlers err =
     (case h (Some err) of Inl x \<Rightarrow> Inl x | Inr err1 \<Rightarrow> lookup_by_name handlers err1)"
  by (simp add: classify_def)

lemma classify_not_by_code:
  "code err \<noteq> Some 11000 \<Longrightarrow> classify handlers err = lookup_by_name handlers err"
  by (simp add: classify_def)

lemma lookup_registered:
  "handlers (name err) = Some h \<Longrightarrow>
   lookup_by_name handlers err = (case h (Some err) of Inl x \<Rightarrow> Inl x | Inr e \<Rightarrow> Inr (EObj e))"
  by (simp add: lookup_by_name_def)

lemma lookup_miss:
  "handlers (name err) = None \<Longrightarrow> name err \<notin> set Object_prototype_names \<Longrightarrow>
   lookup_by_name handlers err = Inr (EObj err)"
  by (simp add: lookup_by_name_def)


text \<open>The formatters on a value.\<close>

lemma respond_value_object: "respond_value handlers (EObj e) s = Inr (respond e s)"
  by (simp add: respond_value_def sendDevError_value_def sendProdError_value_def respond_def)

lemma respond_value_undefined: "\<exists>x. respond_value handlers EUndefined s = Inl x"
  by (simp add: respond_value_def sendDevError_value_def sendProdError_value_def)

lemma respond_value_writes_once:
  "v \<noteq> EUndefined \<Longrightarrow>
   \<exists>w. respond_value handlers v s = Inr (s\<lparr>res := res s @ [w]\<rparr>)"
  by (cases v)
    (auto simp add: respond_value_def sendDevError_value_def sendProdError_value_def
      sendDevError_def sendProdError_def)

lemma respond_value_frame:
  "NODE_ENV s' = NODE_ENV s \<Longrightarrow> res s' = res s \<Longrightarrow>
   respond_value handlers v s' =
     (case respond_value handlers v s of Inl x \<Rightarrow> Inl x | Inr s3 \<Rightarrow> Inr (s'\<lparr>res := res s3\<rparr>))"
  by (simp add: respond_value_def split: sum.split)

lemma res_respond:
  "res (respond e s) =
     (if NODE_ENV s = Some ''development'' then sendDevError e (res s) else sendProdError e (res s))"
  by (simp add: respond_def)

lemma heap_respond: "heap (respond e s) = heap s"
  by (simp add: respond_def)

lemma length_sendDevError: "length (sendDevError e r) = Suc (length r)"
  by (simp add: sendDevError_def)

lemma length_sendProdError: "length (sendProdError e r) = Suc (length r)"
  by (simp add: sendProdError_def)

text \<open>Logging and the handler as a whole.\<close>

lemma logError_available:
  "\<not> fs_unavailable s \<Longrightarrow>
     logError e req s =
       Inr (s\<lparr> logs_exists := True,
               files := (files s)(path_resolve s ''logs'' ''error.log'' \<mapsto>
                 (case files s (path_resolve s ''logs'' ''error.log'') of None \<Rightarrow> [] | Some old \<Rightarrow> old)
                 @ log_record e req s) \<rparr>)"
  by (simp add: logError_def existsSync_logs_def mkdirSync_logs_def appendFileSync_def
      path_resolve_def log_record_def Let_def)

lemma logError_unavailable:
  "fs_unavailable s \<Longrightarrow>
     logError e req s = Inl (FsError (if logs_exists s then ''open'' else ''mkdir logs''))"
  by (simp add: logError_def existsSync_logs_def mkdirSync_logs_def appendFileSync_def Let_def)

lemma handler_after_logging:
  assumes "(if enableLogging opts = Some False then Inr s else logError (heap s a) req s) = Inr s1"
  shows "createErrorHandler tr opts a req s =
     (case classify (merge_handlers tr opts) (normalize_error (heap s1 a)) of
        Inl x \<Rightarrow> (Threw x, s1\<lparr>heap := (heap s1)(a := normalize_error (heap s1 a))\<rparr>)
      | Inr v \<Rightarrow>
          (case respond_value (merge_handlers tr opts) v
                  (s1\<lparr>heap := (heap s1)(a := normalize_error (heap s1 a))\<rparr>) of
             Inl x \<Rightarrow> (Threw x, s1\<lparr>heap := (heap s1)(a := normalize_error (heap s1 a))\<rparr>)
           | Inr s3 \<Rightarrow> (Returned, s3)))"
  using assms
  by (cases "enableLogging opts") (auto simp add: createErrorHandler_def Let_def split: if_splits)

lemma handler_without_logging:
  "enableLogging opts = Some False \<Longrightarrow>
   createErrorHandler tr opts a req s =
     (case classify (merge_handlers tr opts) (normalize_error (heap s a)) of
        Inl x \<Rightarrow> (Threw x, s\<lparr>heap := (heap s)(a := normalize_error (heap s a))\<rparr>)
      | Inr v \<Rightarrow>
          (case respond_value (merge_handlers tr opts) v
                  (s\<lparr>heap := (heap s)(a := normalize_error (heap s a))\<rparr>) of
             Inl x \<Rightarrow> (Threw x, s\<lparr>heap := (heap s)(a := normalize_error (heap s a))\<rparr>)
           | Inr s3 \<Rightarrow> (Returned, s3)))"
  by (simp add: createErrorHandler_def Let_def)

lemma handler_logging_fails:
  "enableLogging opts \<noteq> Some False \<Longrightarrow> logError (heap s a) req s = Inl x \<Longrightarrow>
   createErrorHandler tr opts a req s = (Threw x, s)"
  by (cases "enableLogging opts") (auto simp add: createErrorHandler_def Let_def)

text \<open>
  What one call does when the log write, if there is one, succeeds: the outcome and the
  response are those of classifying the normalized error and formatting the result.
\<close>

lemma handler_effect:
  assumes "enableLogging opts = Some False \<or> \<not> fs_unavailable s"
  shows "fst (createErrorHandler tr opts a req s) =
           (case classify (merge_handlers tr opts) (normalize_error (heap s a)) of
              Inl x \<Rightarrow> Threw x
            | Inr v \<Rightarrow> (case respond_value (merge_handlers tr opts) v s of
                         Inl x \<Rightarrow> Threw x | Inr s3 \<Rightarrow> Returned))"
    and "res (snd (createErrorHandler tr opts a req s)) =
           (case classify (merge_handlers tr opts) (normalize_error (heap s a)) of
              Inl x \<Rightarrow> res s
            | Inr v \<Rightarrow> (case respond_value (merge_handlers tr opts) v s of
                         Inl x \<Rightarrow> res s | Inr s3 \<Rightarrow> res s3))"
    and "heap (snd (createErrorHandler tr opts a req s)) = (heap s)(a := normalize_error (heap s a))"
proof -
  obtain s1 where log: "(if enableLogging opts = Some False then Inr s else logError (heap s a) req s) = Inr s1"
    and same: "NODE_ENV s1 = NODE_ENV s" "res s1 = res s" "heap s1 = heap s"
    using assms by (cases "enableLogging opts = Some False") (auto simp add: logError_available)
  let ?s2 = "s1\<lparr>heap := (heap s)(a := normalize_error (heap s a))\<rparr>"
  have frame: "respond_value (merge_handlers tr opts) v ?s2 =
      (case respond_value (merge_handlers tr opts) v s of
         Inl x \<Rightarrow> Inl x | Inr s3 \<Rightarrow> Inr (?s2\<lparr>res := res s3\<rparr>))" for v
    by (rule respond_value_frame) (simp_all add: same)
  have h: "createErrorHandler tr opts a req s =
     (case classify (merge_handlers tr opts) (normalize_error (heap s a)) of
        Inl x \<Rightarrow> (Threw x, ?s2)
      | Inr v \<Rightarrow>
          (case respond_value (merge_handlers tr opts) v s of
             Inl x \<Rightarrow> (Threw x, ?s2)
           | Inr s3 \<Rightarrow> (Returned, ?s2\<lparr>res := res s3\<rparr>)))"
    unfolding handler_after_logging [OF log, of tr] same frame [symmetric]
    by (simp add: frame split: sum.split)
  show "fst (createErrorHandler tr opts a req s) =
           (case classify (merge_handlers tr opts) (normalize_error (heap s a)) of
              Inl x \<Rightarrow> Threw x
            | Inr v \<Rightarrow> (case respond_value (merge_handlers tr opts) v s of
                         Inl x \<Rightarrow> Threw x | Inr s3 \<Rightarrow> Returned))"
    by (simp add: h split: sum.split)
  show "res (snd (createErrorHandler tr opts a req s)) =
           (case classify (merge_handlers tr opts) (normalize_error (heap s a)) of
              Inl x \<Rightarrow> res s
            | Inr v \<Rightarrow> (case respond_value (merge_handlers tr opts) v s of
                         Inl x \<Rightarrow> res s | Inr s3 \<Rightarrow> res s3))"
    by (simp add: h same split: sum.split)
  show "heap (snd (createErrorHandler tr opts a req s)) = (heap s)(a := normalize_error (heap s a))"
    by (simp add: h same split: sum.split)
qed

lemma classify_plain:
  "classify (defaultHandlers tr) (normalize_error plain_error) = Inr (EObj (normalize_error plain_error))"
  by (simp add: classify_not_by_code lookup_miss normalize_error_sel plain_error_sel
      defaultHandlers_simps not_inherited)

lemma plain_response:
  "sendProdError (normalize_error plain_error) r =
     r @ [(Some 500, [(''status'', JStr ''error''), (''message'', JStr ''Something went very wrong!'')])]"
  by (simp add: sendProdError_def normalize_error_def plain_error_sel)

lemma classify_validation_bare:
  "classify (defaultHandlers tr) (normalize_error validation_error_bare) =
     Inl (TypeError ''Cannot convert undefined or null to object'')"
  by (simp add: classify_def lookup_by_name_def normalize_error_def validation_error_bare_def
      plain_error_def defaultHandlers_simps ValidationError_def)

lemma classify_proto:
  "classify (defaultHandlers tr) (normalize_error proto_error) =
     Inl (TypeError ''handlers[err.name] is not a function'')"
  by (simp add: classify_def lookup_by_name_def inherited_call_def Object_prototype_names_def
      normalize_error_def proto_error_def plain_error_def defaultHandlers_simps)

lemma classify_toString:
  "classify (defaultHandlers tr) (normalize_error toString_error) = Inr (EStr ''[object Object]'')"
  by (simp add: classify_def lookup_by_name_def inherited_call_def Object_prototype_names_def
      normalize_error_def toString_error_def plain_error_def defaultHandlers_simps)

lemma messages_collected:
  "list_all2 (\<lambda>kv v. \<exists>props. snd kv = JObj props \<and> map_of props ''message'' = Some v) kvs vs
   \<Longrightarrow> map_throwing get_message (map snd kvs) = Inr vs"
proof (induction kvs vs rule: list_all2_induct)
  case Nil
  show ?case by simp
next
  case (Cons kv v kvs vs)
  then show ?case by auto
qed

lemma join_elem_strings: "map (join_elem \<circ> JStr) ms = ms"
  by (induction ms) simp_all

text \<open>
  With the built-in registry, an error that is not dispatched by code gets a value other
  than \<^verbatim>\<open>undefined\<close> from classification unless it bears one of seven names: those of
  the two built-in classifiers that can throw and of the five inherited members that throw
  or return \<^verbatim>\<open>undefined\<close>.
\<close>

lemma builtin_classify_value:
  assumes "code e \<noteq> Some 11000"
    and "name e \<notin> set [''ValidationError'', ''DuplicateField'', ''__proto__'',
                         ''__defineGetter__'', ''__defineSetter__'', ''__lookupGetter__'',
                         ''__lookupSetter__'']"
  shows "\<exists>v. classify (defaultHandlers tr) e = Inr v \<and> v \<noteq> EUndefined"
proof (cases "defaultHandlers tr (name e)")
  case (Some h)
  with assms show ?thesis
    by (auto simp add: classify_not_by_code lookup_registered defaultHandlers_def CastError_def
        DuplicateField_def JsonWebTokenError_def TokenExpiredError_def
        split: if_splits sum.splits)
next
  case None
  show ?thesis
  proof (cases "name e \<in> set Object_prototype_names")
    case False
    with None assms show ?thesis by (simp add: classify_not_by_code lookup_miss)
  next
    case True
    with None assms show ?thesis
      by (auto simp add: classify_not_by_code lookup_by_name_def inherited_call_def
          Object_prototype_names_def defaultHandlers_simps)
  qed
qed

subsection \<open>Dispatch by code, then by name\<close>

text \<open>
  Claim C1, as amended. Lines 100 to 103 are two consecutive \<^verbatim>\<open>if\<close> statements with no
  \<^verbatim>\<open>else\<close>. For a raw error with \<^verbatim>\<open>code === 11000\<close> the classifier registered under
  \<^verbatim>\<open>DuplicateField\<close> runs first, whatever the error's name, and the lookup by name then
  runs on the error it returns: a classifier registered under that error's name
  transforms it a second time, and when nothing is found under that name it stands. With
  the built-in duplicate-field classifier, a \<^verbatim>\<open>keyValue\<close> that serializes, and nothing to
  be found under the name of the synthesized error, the result is the operational error
  with status 400 and message \<^verbatim>\<open>"Duplicate field value: "\<close> followed by the serialized
  \<^verbatim>\<open>keyValue\<close>. When the code is not 11000, only the lookup by name is applied.
\<close>

theorem classify_two_steps:
  "(code err = Some 11000 \<and> handlers ''DuplicateField'' = Some h \<and> h (Some err) = Inr err' \<longrightarrow>
      classify handlers err = lookup_by_name handlers err')
   \<and> (code err = Some 11000 \<and> handlers ''DuplicateField'' = Some h \<and> h (Some err) = Inl x \<longrightarrow>
      classify handlers err = Inl x)
   \<and> (code err \<noteq> Some 11000 \<longrightarrow> classify handlers err = lookup_by_name handlers err)
   \<and> (handlers (name err') = Some h' \<longrightarrow>
      lookup_by_name handlers err' =
        (case h' (Some err') of Inl x \<Rightarrow> Inl x | Inr err'' \<Rightarrow> Inr (EObj err'')))
   \<and> (handlers (name err') = None \<and> name err' \<notin> set Object_prototype_names \<longrightarrow>
      lookup_by_name handlers err' = Inr (EObj err'))
   \<and> (code err = Some 11000 \<and> handlers ''DuplicateField'' = Some (DuplicateField tr)
      \<and> JSON_stringify (keyValue err) = Inr v
      \<and> handlers (name (AppError tr (''Duplicate field value: '' @ template v) (Some 400))) = None
      \<and> name (AppError tr (''Duplicate field value: '' @ template v) (Some 400))
           \<notin> set Object_prototype_names \<longrightarrow>
      classify handlers err =
        Inr (EObj (AppError tr (''Duplicate field value: '' @ template v) (Some 400)))
      \<and> statusCode (AppError tr (''Duplicate field value: '' @ template v) (Some 400)) = Some 400
      \<and> isOperational (AppError tr (''Duplicate field value: '' @ template v) (Some 400)) = Some True)"
proof (intro conjI impI)
  show "classify handlers err = lookup_by_name handlers err'"
    if "code err = Some 11000 \<and> handlers ''DuplicateField'' = Some h \<and> h (Some err) = Inr err'"
    using that by (simp add: classify_by_code)
  show "classify handlers err = Inl x"
    if "code err = Some 11000 \<and> handlers ''DuplicateField'' = Some h \<and> h (Some err) = Inl x"
    using that by (simp add: classify_by_code)
  show "classify handlers err = lookup_by_name handlers err" if "code err \<noteq> Some 11000"
    using that by (rule classify_not_by_code)
  show "lookup_by_name handlers err' =
        (case h' (Some err') of Inl x \<Rightarrow> Inl x | Inr err'' \<Rightarrow> Inr (EObj err''))"
    if "handlers (name err') = Some h'"
    using that by (rule lookup_registered)
  show "lookup_by_name handlers err' = Inr (EObj err')"
    if "handlers (name err') = None \<and> name err' \<notin> set Object_prototype_names"
    using that by (simp add: lookup_miss)
next
  let ?d = "AppError tr (''Duplicate field value: '' @ template v) (Some 400)"
  assume a: "code err = Some 11000 \<and> handlers ''DuplicateField'' = Some (DuplicateField tr)
      \<and> JSON_stringify (keyValue err) = Inr v
      \<and> handlers (name ?d) = None \<and> name ?d \<notin> set Object_prototype_names"
  then have "DuplicateField tr (Some err) = Inr ?d" by (simp add: DuplicateField_result)
  with a show "classify handlers err = Inr (EObj ?d)"
    by (simp add: classify_by_code lookup_miss)
  show "statusCode ?d = Some 400" by (simp add: AppError_def)
  show "isOperational ?d = Some True" by (simp add: AppError_def)
qed

theorem classify_two_steps_witness:
  "classify (defaultHandlers ''t'') duplicate_error =
     Inr (EObj (AppError ''t'' ''Duplicate field value: {\"email\":\"a@b.c\"}'' (Some 400)))
   \<and> classify (merge_handlers ''t'' chain_options) duplicate_error = Inr (EObj teapot)
   \<and> classify (defaultHandlers ''t'') (duplicate_error\<lparr>keyValue := JObj [(''id'', JBigInt 7)]\<rparr>) =
     Inl (TypeError ''Do not know how to serialize a BigInt'')
   \<and> classify (defaultHandlers ''t'') cast_error =
     Inr (EObj (AppError ''t'' ''Invalid id: xyz.'' (Some 400)))
   \<and> classify (defaultHandlers ''t'') plain_error = Inr (EObj plain_error)"
proof -
  have v: "JSON_stringify (keyValue duplicate_error) = Inr (Some ''{\"email\":\"a@b.c\"}'')"
    by (simp add: duplicate_error_def json_quote_def json_escape_char_def)
  have b: "DuplicateField ''t'' (Some (duplicate_error\<lparr>keyValue := JObj [(''id'', JBigInt 7)]\<rparr>)) =
      Inl (TypeError ''Do not know how to serialize a BigInt'')"
    by (simp add: DuplicateField_def)
  have c: "CastError ''t'' (Some cast_error) = Inr (AppError ''t'' ''Invalid id: xyz.'' (Some 400))"
    by (simp add: CastError_def cast_error_def template_def)
  show ?thesis
    using classify_two_steps
        [where err = duplicate_error and handlers = "defaultHandlers ''t''" and tr = "''t''"
           and v = "Some ''{\"email\":\"a@b.c\"}''"]
      classify_two_steps
        [where err = duplicate_error and handlers = "merge_handlers ''t'' chain_options"
           and h = to_conflict and err' = conflict and h' = to_teapot]
      classify_two_steps
        [where err = "duplicate_error\<lparr>keyValue := JObj [(''id'', JBigInt 7)]\<rparr>"
           and handlers = "defaultHandlers ''t''" and h = "DuplicateField ''t''"
           and x = "TypeError ''Do not know how to serialize a BigInt''"]
      classify_two_steps
        [where err = cast_error and handlers = "defaultHandlers ''t''" and err' = cast_error
           and h' = "CastError ''t''"]
      classify_two_steps
        [where err = plain_error and handlers = "defaultHandlers ''t''" and err' = plain_error]
      v b c
    by (simp add: defaultHandlers_simps chain_registry AppError_name not_inherited template_def
        duplicate_error_def cast_error_def plain_error_sel to_conflict_def to_teapot_def conflict_def)
qed

text \<open>
  The claim as stated fails: with one classifier registered under \<^verbatim>\<open>DuplicateField\<close>
  and another under the name of the error the first returns, an error with code 11000 is
  transformed by both and answered with status 418.
\<close>

theorem second_lookup_counterexample:
  "code duplicate_error = Some 11000
   \<and> classify (merge_handlers ''t'' chain_options) duplicate_error = Inr (EObj teapot)
   \<and> statusCode teapot = Some 418
   \<and> message teapot = ''I am a teapot''
   \<and> res (snd (createErrorHandler ''t'' chain_options 0 request0
                  (world0\<lparr>heap := (\<lambda>a. duplicate_error)\<rparr>))) =
       [(Some 418, [(''status'', JStr ''fail''), (''message'', JStr ''I am a teapot'')])]"
proof -
  have c: "classify (merge_handlers ''t'' chain_options) e = Inr (EObj teapot)"
    if "code e = Some 11000" for e
    using that
    by (simp add: classify_by_code chain_registry to_conflict_def lookup_registered conflict_def
        to_teapot_def)
  have f: "sendProdError teapot [] =
      [(Some 418, [(''status'', JStr ''fail''), (''message'', JStr ''I am a teapot'')])]"
    by (simp add: sendProdError_def teapot_def opt_str_def)
  have d: "code duplicate_error = Some 11000" by (simp add: duplicate_error_def)
  have q: "enableLogging chain_options = Some False" by (simp add: chain_options_def)
  have t: "statusCode teapot = Some 418" "message teapot = ''I am a teapot''"
    by (simp_all add: teapot_def)
  show ?thesis
    by (simp add: d t c normalize_error_sel handler_without_logging [OF q]
        respond_value_object res_respond f world0_def)
qed

subsection \<open>One response per call\<close>

text \<open>
  Claim C2, as amended. The handler has no \<^verbatim>\<open>try\<close>/\<^verbatim>\<open>catch\<close>. When the log write (if
  logging is on) succeeds and classification of the normalized error returns a value
  other than \<^verbatim>\<open>undefined\<close>, the handler returns and has written the status code and the
  payload to the response exactly once. When classification throws, as the built-in
  \<^verbatim>\<open>ValidationError\<close> classifier does on an error without \<^verbatim>\<open>errors\<close>, the handler throws
  the same exception and has written nothing to the response; nor has it when
  classification yields \<^verbatim>\<open>undefined\<close>, on which the formatter throws. With the built-in
  registry alone, every error that is not dispatched by code and bears none of the seven
  names listed in the last part of the statement gets its one response.
\<close>

theorem handler_responds_once_unless_classifier_throws:
  assumes "enableLogging opts = Some False \<or> \<not> fs_unavailable s"
  shows "(classify (merge_handlers tr opts) (normalize_error (heap s a)) = Inr v \<and> v \<noteq> EUndefined \<longrightarrow>
            fst (createErrorHandler tr opts a req s) = Returned
            \<and> length (res (snd (createErrorHandler tr opts a req s))) = Suc (length (res s)))
         \<and> (classify (merge_handlers tr opts) (normalize_error (heap s a)) = Inr (EObj e') \<longrightarrow>
            fst (createErrorHandler tr opts a req s) = Returned
            \<and> res (snd (createErrorHandler tr opts a req s)) =
                (if NODE_ENV s = Some ''development''
                 then sendDevError e' (res s) else sendProdError e' (res s)))
         \<and> (classify (merge_handlers tr opts) (normalize_error (heap s a)) = Inl x \<longrightarrow>
            fst (createErrorHandler tr opts a req s) = Threw x
            \<and> res (snd (createErrorHandler tr opts a req s)) = res s)
         \<and> (classify (merge_handlers tr opts) (normalize_error (heap s a)) = Inr EUndefined \<longrightarrow>
            fst (createErrorHandler tr opts a req s) =
              Threw (no_argument (if NODE_ENV s = Some ''development''
                                  then ''statusCode'' else ''isOperational''))
            \<and> res (snd (createErrorHandler tr opts a req s)) = res s)
         \<and> (customHandlers opts = None \<and> code (heap s a) \<noteq> Some 11000
            \<and> name (heap s a) \<notin> set [''ValidationError'', ''DuplicateField'', ''__proto__'',
                   ''__defineGetter__'', ''__defineSetter__'', ''__lookupGetter__'',
                   ''__lookupSetter__''] \<longrightarrow>
            fst (createErrorHandler tr opts a req s) = Returned
            \<and> length (res (snd (createErrorHandler tr opts a req s))) = Suc (length (res s)))"
proof -
  note eff = handler_effect(1,2) [OF assms, of tr a req]
  have once: "fst (createErrorHandler tr opts a req s) = Returned
        \<and> length (res (snd (createErrorHandler tr opts a req s))) = Suc (length (res s))"
    if c: "classify (merge_handlers tr opts) (normalize_error (heap s a)) = Inr w"
      and w: "w \<noteq> EUndefined" for w
  proof -
    from respond_value_writes_once [OF w] obtain p
      where "respond_value (merge_handlers tr opts) w s = Inr (s\<lparr>res := res s @ [p]\<rparr>)" by blast
    with c eff show ?thesis by simp
  qed
  have builtin: "fst (createErrorHandler tr opts a req s) = Returned
        \<and> length (res (snd (createErrorHandler tr opts a req s))) = Suc (length (res s))"
    if none: "customHandlers opts = None" and code: "code (heap s a) \<noteq> Some 11000"
      and nm: "name (heap s a) \<notin> set [''ValidationError'', ''DuplicateField'', ''__proto__'',
                   ''__defineGetter__'', ''__defineSetter__'', ''__lookupGetter__'',
                   ''__lookupSetter__'']"
  proof -
    from code have 1: "code (normalize_error (heap s a)) \<noteq> Some 11000"
      by (simp add: normalize_error_sel)
    have 2: "name (normalize_error (heap s a)) \<notin> set [''ValidationError'',
        ''DuplicateField'', ''__proto__'', ''__defineGetter__'', ''__defineSetter__'',
        ''__lookupGetter__'', ''__lookupSetter__'']"
      unfolding normalize_error_sel by (rule nm)
    from builtin_classify_value [OF 1 2, of tr] obtain w
      where "classify (defaultHandlers tr) (normalize_error (heap s a)) = Inr w" "w \<noteq> EUndefined"
      by blast
    with none once [of w] show ?thesis by (simp add: merge_default)
  qed
  have obj: "fst (createErrorHandler tr opts a req s) = Returned
            \<and> res (snd (createErrorHandler tr opts a req s)) =
                (if NODE_ENV s = Some ''development''
                 then sendDevError e' (res s) else sendProdError e' (res s))"
    if "classify (merge_handlers tr opts) (normalize_error (heap s a)) = Inr (EObj e')"
    using that eff by (simp add: respond_value_object res_respond)
  have thrown: "fst (createErrorHandler tr opts a req s) = Threw x
            \<and> res (snd (createErrorHandler tr opts a req s)) = res s"
    if "classify (merge_handlers tr opts) (normalize_error (heap s a)) = Inl x"
    using that eff by simp
  have undef: "fst (createErrorHandler tr opts a req s) =
              Threw (no_argument (if NODE_ENV s = Some ''development''
                                  then ''statusCode'' else ''isOperational''))
            \<and> res (snd (createErrorHandler tr opts a req s)) = res s"
    if "classify (merge_handlers tr opts) (normalize_error (heap s a)) = Inr EUndefined"
    using that eff
    by (simp add: respond_value_def sendDevError_value_def sendProdError_value_def)
  from once [of v] builtin obj thrown undef show ?thesis by blast
qed

theorem handler_responds_once_unless_classifier_throws_witness:
  "fst (createErrorHandler ''t'' default_options 0 request0 world0) = Returned
   \<and> res (snd (createErrorHandler ''t'' default_options 0 request0 world0)) =
       [(Some 500, [(''status'', JStr ''error''), (''message'', JStr ''Something went very wrong!'')])]
   \<and> fst (createErrorHandler ''t'' quiet_options 0 request0
             (world0\<lparr>heap := (\<lambda>a. validation_error_bare)\<rparr>)) =
       Threw (TypeError ''Cannot convert undefined or null to object'')
   \<and> fst (createErrorHandler ''t'' quiet_options 0 request0
             (world0\<lparr>heap := (\<lambda>a. proto_error)\<rparr>)) =
       Threw (TypeError ''handlers[err.name] is not a function'')
   \<and> length (res (snd (createErrorHandler ''t'' quiet_options 0 request0
                          (world0\<lparr>heap := (\<lambda>a. toString_error)\<rparr>)))) = 1"
  using handler_responds_once_unless_classifier_throws
      [where opts = default_options and s = world0 and tr = "''t''" and a = 0
         and e' = "normalize_error plain_error" and req = request0
         and v = "EObj (normalize_error plain_error)"]
    handler_responds_once_unless_classifier_throws
      [where opts = quiet_options and s = "world0\<lparr>heap := (\<lambda>a. validation_error_bare)\<rparr>"
         and tr = "''t''" and a = 0 and req = request0
         and x = "TypeError ''Cannot convert undefined or null to object''"]
    handler_responds_once_unless_classifier_throws
      [where opts = quiet_options and s = "world0\<lparr>heap := (\<lambda>a. proto_error)\<rparr>"
         and tr = "''t''" and a = 0 and req = request0
         and x = "TypeError ''handlers[err.name] is not a function''"]
    handler_responds_once_unless_classifier_throws
      [where opts = quiet_options and s = "world0\<lparr>heap := (\<lambda>a. toString_error)\<rparr>"
         and tr = "''t''" and a = 0 and req = request0 and v = "EStr ''[object Object]''"]
  by (simp add: world0_sel merge_default default_options_def quiet_options_def classify_plain
      classify_validation_bare classify_proto classify_toString plain_response)

text \<open>
  The claim as stated fails on an error named \<^verbatim>\<open>"ValidationError"\<close> without an
  \<^verbatim>\<open>errors\<close> field: \<^verbatim>\<open>Object.values(undefined)\<close> throws, the handler throws, and the
  response is still empty.
\<close>

theorem validation_without_errors_counterexample:
  "fst (createErrorHandler ''t'' quiet_options 0 request0
          (world0\<lparr>heap := (\<lambda>a. validation_error_bare)\<rparr>)) =
     Threw (TypeError ''Cannot convert undefined or null to object'')
   \<and> res (snd (createErrorHandler ''t'' quiet_options 0 request0
                  (world0\<lparr>heap := (\<lambda>a. validation_error_bare)\<rparr>))) = []"
  by (simp add: handler_without_logging quiet_options_def merge_default classify_validation_bare
      world0_sel)

subsection \<open>Logging and the response\<close>

text \<open>
  Claim C3, as amended. \<^verbatim>\<open>logError\<close> runs first and unguarded. When logging is on and
  the log write fails, the handler throws the file-system exception and leaves the state,
  the response included, as it was: no response is emitted. When the file system is
  available, the outcome, the response and the heap are the same with logging on as with
  logging off.
\<close>

theorem log_failure_aborts_the_handler:
  "(fs_unavailable s \<and> enableLogging opts \<noteq> Some False \<longrightarrow>
      createErrorHandler tr opts a req s =
        (Threw (FsError (if logs_exists s then ''open'' else ''mkdir logs'')), s))
   \<and> (\<not> fs_unavailable s \<longrightarrow>
      fst (createErrorHandler tr (opts\<lparr>enableLogging := Some True\<rparr>) a req s) =
        fst (createErrorHandler tr (opts\<lparr>enableLogging := Some False\<rparr>) a req s)
      \<and> res (snd (createErrorHandler tr (opts\<lparr>enableLogging := Some True\<rparr>) a req s)) =
        res (snd (createErrorHandler tr (opts\<lparr>enableLogging := Some False\<rparr>) a req s))
      \<and> heap (snd (createErrorHandler tr (opts\<lparr>enableLogging := Some True\<rparr>) a req s)) =
        heap (snd (createErrorHandler tr (opts\<lparr>enableLogging := Some False\<rparr>) a req s)))"
proof (intro conjI impI)
  assume "fs_unavailable s \<and> enableLogging opts \<noteq> Some False"
  then have bad: "fs_unavailable s" and on: "enableLogging opts \<noteq> Some False" by simp_all
  from handler_logging_fails [OF on logError_unavailable [OF bad]]
  show "createErrorHandler tr opts a req s =
        (Threw (FsError (if logs_exists s then ''open'' else ''mkdir logs'')), s)" .
next
  assume ok: "\<not> fs_unavailable s"
  let ?on = "opts\<lparr>enableLogging := Some True\<rparr>" and ?off = "opts\<lparr>enableLogging := Some False\<rparr>"
  have on: "enableLogging ?on = Some False \<or> \<not> fs_unavailable s" using ok by simp
  have off: "enableLogging ?off = Some False \<or> \<not> fs_unavailable s" by simp
  have same: "merge_handlers tr ?on = merge_handlers tr ?off" by (simp add: merge_handlers_def)
  show "fst (createErrorHandler tr ?on a req s) = fst (createErrorHandler tr ?off a req s)"
    by (simp only: handler_effect(1) [OF on] handler_effect(1) [OF off] same)
  show "res (snd (createErrorHandler tr ?on a req s)) = res (snd (createErrorHandler tr ?off a req s))"
    by (simp only: handler_effect(2) [OF on] handler_effect(2) [OF off] same)
  show "heap (snd (createErrorHandler tr ?on a req s)) = heap (snd (createErrorHandler tr ?off a req s))"
    by (simp only: handler_effect(3) [OF on] handler_effect(3) [OF off])
qed

theorem log_failure_aborts_the_handler_witness:
  "createErrorHandler ''t'' default_options 0 request0 (world0\<lparr>fs_unavailable := True\<rparr>) =
     (Threw (FsError ''mkdir logs''), world0\<lparr>fs_unavailable := True\<rparr>)
   \<and> res (snd (createErrorHandler ''t'' (default_options\<lparr>enableLogging := Some True\<rparr>) 0 request0 world0)) =
       [(Some 500, [(''status'', JStr ''error''), (''message'', JStr ''Something went very wrong!'')])]"
proof -
  have 1: "res (snd (createErrorHandler ''t'' (default_options\<lparr>enableLogging := Some False\<rparr>) 0 request0 world0)) =
       [(Some 500, [(''status'', JStr ''error''), (''message'', JStr ''Something went very wrong!'')])]"
    by (simp add: handler_without_logging default_options_def merge_default classify_plain
        world0_sel respond_value_object res_respond plain_response)
  have 2: "logError (heap (world0\<lparr>fs_unavailable := True\<rparr>) 0) request0 (world0\<lparr>fs_unavailable := True\<rparr>)
        = Inl (FsError ''mkdir logs'')"
    by (simp add: logError_def existsSync_logs_def mkdirSync_logs_def world0_def Let_def)
  have 3: "createErrorHandler ''t'' default_options 0 request0 (world0\<lparr>fs_unavailable := True\<rparr>) =
     (Threw (FsError ''mkdir logs''), world0\<lparr>fs_unavailable := True\<rparr>)"
    by (rule handler_logging_fails [OF _ 2]) (simp add: default_options_def)
  show ?thesis
    using log_failure_aborts_the_handler [of world0 default_options "''t''" 0 request0]
      log_failure_aborts_the_handler [of "world0\<lparr>fs_unavailable := True\<rparr>" default_options "''t''" 0 request0]
      1 3
    by (simp add: world0_sel)
qed

text \<open>
  The claim as stated fails: with the file system unavailable, the handler with logging on
  throws and emits nothing, where the handler with logging off emits the 500 response.
\<close>

theorem log_failure_counterexample:
  "fst (createErrorHandler ''t'' default_options 0 request0 (world0\<lparr>fs_unavailable := True\<rparr>)) =
     Threw (FsError ''mkdir logs'')
   \<and> res (snd (createErrorHandler ''t'' default_options 0 request0 (world0\<lparr>fs_unavailable := True\<rparr>))) = []
   \<and> res (snd (createErrorHandler ''t'' quiet_options 0 request0 (world0\<lparr>fs_unavailable := True\<rparr>))) =
       [(Some 500, [(''status'', JStr ''error''), (''message'', JStr ''Something went very wrong!'')])]"
proof -
  have 2: "logError (heap (world0\<lparr>fs_unavailable := True\<rparr>) 0) request0 (world0\<lparr>fs_unavailable := True\<rparr>)
        = Inl (FsError ''mkdir logs'')"
    by (simp add: logError_def existsSync_logs_def mkdirSync_logs_def world0_def Let_def)
  have 3: "createErrorHandler ''t'' default_options 0 request0 (world0\<lparr>fs_unavailable := True\<rparr>) =
     (Threw (FsError ''mkdir logs''), world0\<lparr>fs_unavailable := True\<rparr>)"
    by (rule handler_logging_fails [OF _ 2]) (simp add: default_options_def)
  have 4: "res (snd (createErrorHandler ''t'' quiet_options 0 request0 (world0\<lparr>fs_unavailable := True\<rparr>))) =
       [(Some 500, [(''status'', JStr ''error''), (''message'', JStr ''Something went very wrong!'')])]"
    by (simp add: handler_without_logging quiet_options_def merge_default classify_plain
        world0_sel respond_value_object res_respond plain_response)
  show ?thesis using 3 4 by (simp add: world0_sel)
qed

subsection \<open>The formatters\<close>

text \<open>
  Claim C4. In verbose mode (\<^verbatim>\<open>NODE_ENV === "development"\<close>, \<^verbatim>\<open>sendDevError\<close>) the payload
  has the three fields \<^verbatim>\<open>status\<close>, \<^verbatim>\<open>message\<close> and \<^verbatim>\<open>stack\<close>, and \<^verbatim>\<open>stack\<close> holds
  \<^verbatim>\<open>err.stack\<close> of the error handed to the formatter, operational or not (the value
  \<^verbatim>\<open>undefined\<close> when that error has no trace). In any other mode (\<^verbatim>\<open>sendProdError\<close>)
  the payload has no \<^verbatim>\<open>stack\<close> field.
\<close>

theorem stack_field_only_when_verbose:
  "(NODE_ENV s = Some ''development'' \<longrightarrow>
      (\<exists>c st m. res (respond err s) =
         res s @ [(c, [(''status'', st), (''message'', m), (''stack'', opt_str (stack err))])]))
   \<and> (NODE_ENV s \<noteq> Some ''development'' \<longrightarrow>
      (\<exists>c p. res (respond err s) = res s @ [(c, p)] \<and> map_of p ''stack'' = None))
   \<and> map_of (snd (last (sendDevError err r))) ''stack'' = Some (opt_str (stack err))
   \<and> map_of (snd (last (sendProdError err r))) ''stack'' = None"
  by (simp add: respond_def sendDevError_def sendProdError_def)

theorem stack_field_only_when_verbose_witness:
  "res (respond plain_error (world0\<lparr>NODE_ENV := Some ''development''\<rparr>)) =
     [(Some 500, [(''status'', JStr ''error''), (''message'', JStr ''boom''),
                  (''stack'', JStr ''Error: boom at app.js'')])]
   \<and> res (respond (AppError ''t'' ''No such user'' (Some 404)) world0) =
     [(Some 404, [(''status'', JStr ''fail''), (''message'', JStr ''No such user'')])]"
  using stack_field_only_when_verbose
      [where s = "world0\<lparr>NODE_ENV := Some ''development''\<rparr>" and err = plain_error]
    stack_field_only_when_verbose
      [where s = world0 and err = "AppError ''t'' ''No such user'' (Some 404)"]
  by (simp add: respond_def sendDevError_def sendProdError_def world0_sel plain_error_sel
      AppError_def statusClass_def statusCode_or_def status_or_def opt_str_def)

text \<open>
  Through the whole handler, the error handed to the formatter is the one classification
  returns: for a classified error the trace shown is that of the synthesized error.
\<close>

lemma verbose_stack_after_classification:
  "res (snd (createErrorHandler ''t'' quiet_options 0 request0
               (world0\<lparr>NODE_ENV := Some ''development'', heap := (\<lambda>a. cast_error)\<rparr>))) =
     [(Some 400, [(''status'', JStr ''fail''), (''message'', JStr ''Invalid id: xyz.''),
                  (''stack'', JStr ''t'')])]"
proof -
  have c: "classify (defaultHandlers ''t'') (normalize_error cast_error) =
      Inr (EObj (AppError ''t'' ''Invalid id: xyz.'' (Some 400)))"
    by (simp add: classify_def lookup_by_name_def normalize_error_def cast_error_def
        plain_error_def defaultHandlers_simps CastError_def template_def)
  have f: "sendDevError (AppError ''t'' ''Invalid id: xyz.'' (Some 400)) [] =
      [(Some 400, [(''status'', JStr ''fail''), (''message'', JStr ''Invalid id: xyz.''),
                   (''stack'', JStr ''t'')])]"
    by (simp add: sendDevError_def AppError_def statusClass_def statusCode_or_def
        status_or_def opt_str_def)
  show ?thesis
    by (simp add: handler_without_logging quiet_options_def merge_default c
        respond_value_object res_respond f world0_def)
qed

text \<open>
  Claim C5. For an error whose \<^verbatim>\<open>isOperational\<close> is not \<^verbatim>\<open>true\<close>, \<^verbatim>\<open>sendProdError\<close>
  answers with status code 500 and the payload
  \<^verbatim>\<open>{status: "error", message: "Something went very wrong!"}\<close>, whatever the error's
  message, trace and status code are; so does the handler's last step in every mode but
  development.
\<close>

theorem non_operational_is_generic_500:
  assumes "isOperational err \<noteq> Some True"
  shows "sendProdError err r =
           r @ [(Some 500, [(''status'', JStr ''error''),
                            (''message'', JStr ''Something went very wrong!'')])]
         \<and> (NODE_ENV s \<noteq> Some ''development'' \<longrightarrow>
              res (respond err s) =
                res s @ [(Some 500, [(''status'', JStr ''error''),
                                     (''message'', JStr ''Something went very wrong!'')])])"
  using assms by (simp add: sendProdError_def respond_def)

theorem non_operational_is_generic_500_witness:
  "sendProdError (unknown_error\<lparr>isOperational := Some False\<rparr>) [] =
     [(Some 500, [(''status'', JStr ''error''), (''message'', JStr ''Something went very wrong!'')])]
   \<and> res (respond plain_error world0) =
     [(Some 500, [(''status'', JStr ''error''), (''message'', JStr ''Something went very wrong!'')])]"
  using non_operational_is_generic_500
      [where err = "unknown_error\<lparr>isOperational := Some False\<rparr>" and r = "[]" and s = world0]
    non_operational_is_generic_500 [where err = plain_error and r = "[]" and s = world0]
  by (simp add: plain_error_sel world0_sel)

subsection \<open>The operational error\<close>

text \<open>
  Claim C6. For every message and every integer status code, the constructed error
  carries the message and the status code as given (400 when the status code is left
  out), its status category is \<^verbatim>\<open>"fail"\<close> when the code is in [400,500) and
  \<^verbatim>\<open>"error"\<close> otherwise, and \<^verbatim>\<open>isOperational\<close> is \<^verbatim>\<open>true\<close>.
\<close>

theorem AppError_contract:
  "message (AppError tr msg sc) = msg
   \<and> statusCode (AppError tr msg sc) = Some (case sc of None \<Rightarrow> 400 | Some c \<Rightarrow> c)
   \<and> status (AppError tr msg sc) =
       Some (if 400 \<le> (case sc of None \<Rightarrow> 400 | Some c \<Rightarrow> c)
                \<and> (case sc of None \<Rightarrow> 400 | Some c \<Rightarrow> c) < 500
             then ''fail'' else ''error'')
   \<and> isOperational (AppError tr msg sc) = Some True"
  by (simp add: AppError_def statusClass_def Let_def)

theorem AppError_contract_witness:
  "status (AppError ''t'' [] None) = Some ''fail''
   \<and> status (AppError ''t'' ''gone'' (Some 499)) = Some ''fail''
   \<and> status (AppError ''t'' ''down'' (Some 500)) = Some ''error''
   \<and> status (AppError ''t'' ''odd'' (Some (- 7))) = Some ''error''
   \<and> statusCode (AppError ''t'' ''odd'' (Some (- 7))) = Some (- 7)
   \<and> isOperational (AppError ''t'' ''odd'' (Some (- 7))) = Some True"
  using AppError_contract [of "''t''" "[]" None]
    AppError_contract [of "''t''" "''gone''" "Some 499"]
    AppError_contract [of "''t''" "''down''" "Some 500"]
    AppError_contract [of "''t''" "''odd''" "Some (- 7)"]
  by simp

subsection \<open>The validation classifier\<close>

text \<open>
  Claim C7, as amended. For a raw error that is named \<^verbatim>\<open>"ValidationError"\<close>, is not
  dispatched by code (its code is not 11000), and whose \<^verbatim>\<open>errors\<close> is a mapping in which
  every entry is an object with a \<^verbatim>\<open>message\<close>, classification with the built-in
  classifier registered under that name yields an operational error with status 400 whose
  message is \<^verbatim>\<open>"Invalid input data. "\<close> followed by the entries' messages, each printed
  as \<^verbatim>\<open>join\<close> prints it (a string as it is), joined with \<^verbatim>\<open>". "\<close>; nothing follows the
  last message. For the two entries \<^verbatim>\<open>"A required"\<close> and \<^verbatim>\<open>"B invalid"\<close> the message is
  \<^verbatim>\<open>"Invalid input data. A required. B invalid"\<close>.
\<close>

theorem ValidationError_joins_messages:
  assumes "name err = ''ValidationError''"
    and "code err \<noteq> Some 11000"
    and "handlers ''ValidationError'' = Some (ValidationError tr)"
    and "errors err = JObj kvs"
    and "list_all2 (\<lambda>kv v. \<exists>props. snd kv = JObj props \<and> map_of props ''message'' = Some v) kvs vs"
  shows "classify handlers err =
           Inr (EObj (AppError tr (''Invalid input data. '' @ join ''. '' (map join_elem vs)) (Some 400)))
         \<and> statusCode (AppError tr (''Invalid input data. '' @ join ''. '' (map join_elem vs)) (Some 400))
             = Some 400
         \<and> isOperational (AppError tr (''Invalid input data. '' @ join ''. '' (map join_elem vs)) (Some 400))
             = Some True
         \<and> (vs = map JStr ms \<longrightarrow>
              classify handlers err =
                Inr (EObj (AppError tr (''Invalid input data. '' @ join ''. '' ms) (Some 400))))"
proof -
  have v: "ValidationError tr (Some err) =
      Inr (AppError tr (''Invalid input data. '' @ join ''. '' (map join_elem vs)) (Some 400))"
    using assms(4) messages_collected [OF assms(5)] by (simp add: ValidationError_def)
  have c: "classify handlers err =
      Inr (EObj (AppError tr (''Invalid input data. '' @ join ''. '' (map join_elem vs)) (Some 400)))"
    using assms(1,3) v by (simp add: classify_not_by_code [OF assms(2)] lookup_registered)
  show ?thesis
    using c by (auto simp add: AppError_def join_elem_strings)
qed

theorem ValidationError_joins_messages_witness:
  "classify (defaultHandlers ''t'') validation_error =
     Inr (EObj (AppError ''t'' ''Invalid input data. A required. B invalid'' (Some 400)))"
  using ValidationError_joins_messages
      [where err = validation_error and tr = "''t''" and handlers = "defaultHandlers ''t''"
         and ms = "[''A required'', ''B invalid'']"
         and vs = "[JStr ''A required'', JStr ''B invalid'']"
         and kvs = "[(''a'', JObj [(''message'', JStr ''A required'')]),
                     (''b'', JObj [(''message'', JStr ''B invalid'')])]"]
  by (simp add: validation_error_def plain_error_def defaultHandlers_simps)

text \<open>
  The claim's example ends in a full stop that the template of line 33 does not write.
\<close>

theorem no_trailing_period_counterexample:
  "ValidationError ''t'' (Some validation_error) \<noteq>
     Inr (AppError ''t'' ''Invalid input data. A required. B invalid.'' (Some 400))
   \<and> classify (defaultHandlers ''t'') validation_error =
     Inr (EObj (AppError ''t'' ''Invalid input data. A required. B invalid'' (Some 400)))"
  by (simp add: classify_def lookup_by_name_def defaultHandlers_simps validation_error_def
      plain_error_def ValidationError_def AppError_def Let_def)

subsection \<open>Normalization\<close>




subsection \<open>Custom classifiers\<close>




subsection \<open>The caller's error object\<close>

text \<open>
  Claim C10. The handler writes to the object it was given: once the log write (if any)
  has succeeded, the object at the caller's address has \<^verbatim>\<open>statusCode\<close> 500 where it had
  none and \<^verbatim>\<open>status\<close> \<^verbatim>\<open>"error"\<close> where it had none, all its other fields and every
  other object are as before, and this holds in the state the handler leaves, whether it
  returns or a classifier throws.
\<close>

theorem handler_writes_defaults_in_place:
  assumes "enableLogging opts = Some False \<or> \<not> fs_unavailable s"
  shows "heap (snd (createErrorHandler tr opts a req s)) =
           (heap s)(a := (heap s a)\<lparr> statusCode := Some (statusCode_or (statusCode (heap s a)) 500),
                                     status := Some (status_or (status (heap s a)) ''error'') \<rparr>)
         \<and> (statusCode (heap s a) = None \<longrightarrow>
              statusCode (heap (snd (createErrorHandler tr opts a req s)) a) = Some 500)
         \<and> (status (heap s a) = None \<longrightarrow>
              status (heap (snd (createErrorHandler tr opts a req s)) a) = Some ''error'')
         \<and> (b \<noteq> a \<longrightarrow> heap (snd (createErrorHandler tr opts a req s)) b = heap s b)"
  using handler_effect(3) [OF assms, of tr a req]
  by (simp add: normalize_error_def statusCode_or_def status_or_def)

theorem handler_writes_defaults_in_place_witness:
  "heap (snd (createErrorHandler ''t'' default_options 0 request0 world0)) 0 =
     plain_error\<lparr> statusCode := Some 500, status := Some ''error'' \<rparr>
   \<and> heap (snd (createErrorHandler ''t'' default_options 0 request0 world0)) 1 = plain_error"
  using handler_writes_defaults_in_place
      [where opts = default_options and s = world0 and tr = "''t''" and a = 0 and req = request0
         and b = 1]
  by (simp add: world0_sel plain_error_sel statusCode_or_def status_or_def)

end
